theory Spec2Isabelle
  imports Complex_Main
begin

section \<open>Conventions of the embedding\<close>

text \<open>
  The mortgage simulator computes with JavaScript numbers. The embedding reads every
  amount and rate as a \<^typ>\<open>real\<close> and every arithmetic operation as the exact one, so a
  statement "within floating-point tolerance" is proved here as the exact identity of
  the formulas the code evaluates. Durations in years reach the formulas through
  \<^verbatim>\<open>parseInt\<close> (events.js), so they are natural numbers; the falsy test
  \<^verbatim>\<open>!x\<close> on a number is \<open>x = 0\<close>.

  \<^verbatim>\<open>Math.pow(b, e)\<close> is only called with an integer number of months (or its
  negation) as exponent: it is the integer power \<open>b powi e\<close>.
\<close>

definition Math_pow :: "real \<Rightarrow> int \<Rightarrow> real" where
  "Math_pow b e = b powi e"

section \<open>Configuration: \<^verbatim>\<open>FormulaConstants\<close> of config.js\<close>

definition debtRatio :: real where
  "debtRatio = 0.35"

definition emolumentRates_bracket1 :: real where
  "emolumentRates_bracket1 = 0.03870"

definition emolumentRates_bracket2 :: real where
  "emolumentRates_bracket2 = 0.01596"

definition emolumentRates_bracket3 :: real where
  "emolumentRates_bracket3 = 0.01064"

definition emolumentRates_bracket4 :: real where
  "emolumentRates_bracket4 = 0.00799"

definition emolumentThresholds_tier1 :: real where
  "emolumentThresholds_tier1 = 6500"

definition emolumentThresholds_tier2 :: real where
  "emolumentThresholds_tier2 = 17000"

definition emolumentThresholds_tier3 :: real where
  "emolumentThresholds_tier3 = 60000"

definition emolumentTVA :: real where
  "emolumentTVA = 1.20"

definition propertyTax_new :: real where
  "propertyTax_new = 0.00715"

definition propertyTax_old :: real where
  "propertyTax_old = 0.058"

definition debours :: real where
  "debours = 1000"

definition contribution_rate :: real where
  "contribution_rate = 0.001"

definition contribution_minimum :: real where
  "contribution_minimum = 15"

definition caution_threshold :: real where
  "caution_threshold = 500000"

definition caution_commissionRateLow :: real where
  "caution_commissionRateLow = 0.012"

definition caution_commissionFixed :: real where
  "caution_commissionFixed = 6000"

definition caution_commissionRateHigh :: real where
  "caution_commissionRateHigh = 0.005"

definition caution_fmgRate :: real where
  "caution_fmgRate = 0.005"

definition caution_minimum :: real where
  "caution_minimum = 1000"

definition iteration_maxIterations :: nat where
  "iteration_maxIterations = 10"

definition iteration_convergenceThreshold :: real where
  "iteration_convergenceThreshold = 100"

definition iteration_initialFeesEstimate :: real where
  "iteration_initialFeesEstimate = 0.10"

section \<open>Income and capacity (formulas.js, section 1)\<close>

definition calcMaxMonthlyPayment :: "real \<Rightarrow> real \<Rightarrow> real" where
  "calcMaxMonthlyPayment income charges =
     (let maxPayment = income * debtRatio - charges
      in max 0 maxPayment)"

section \<open>Insurance (formulas.js, section 2)\<close>

definition calcMonthlyInsurance :: "real \<Rightarrow> real \<Rightarrow> real" where
  "calcMonthlyInsurance borrowedCapital insuranceRate =
     (if borrowedCapital = 0 \<or> borrowedCapital \<le> 0 \<or> insuranceRate = 0 then 0
      else (borrowedCapital * insuranceRate) / 12)"

section \<open>Annuity formulas (formulas.js, section 4)\<close>

definition calcMaxLoan :: "real \<Rightarrow> real \<Rightarrow> nat \<Rightarrow> real" where
  "calcMaxLoan monthlyPayment annualRate durationYears =
     (if monthlyPayment = 0 \<or> monthlyPayment \<le> 0 \<or> annualRate = 0 \<or> durationYears = 0
      then 0
      else
        let monthlyRate = annualRate / 12 / 100;
            numMonths = durationYears * 12
        in if monthlyRate = 0 then monthlyPayment * real numMonths
           else monthlyPayment * (1 - Math_pow (1 + monthlyRate) (- int numMonths))
                  / monthlyRate)"

definition calcMonthlyPayment :: "real \<Rightarrow> real \<Rightarrow> nat \<Rightarrow> real" where
  "calcMonthlyPayment loan annualRate durationYears =
     (if loan = 0 \<or> loan \<le> 0 \<or> annualRate = 0 \<or> durationYears = 0
      then 0
      else
        let monthlyRate = annualRate / 12 / 100;
            numMonths = durationYears * 12
        in if monthlyRate = 0 then loan / real numMonths
           else loan * (monthlyRate * Math_pow (1 + monthlyRate) (int numMonths))
                  / (Math_pow (1 + monthlyRate) (int numMonths) - 1))"

section \<open>Notary fees and loan guarantee (formulas.js, sections 5 and 6)\<close>

text \<open>
  \<^verbatim>\<open>calcEmoluments\<close> walks the sliding scale from the top bracket down, each test
  adding the part of the price above its threshold and lowering the price to it.
\<close>

definition calcEmoluments :: "real \<Rightarrow> real" where
  "calcEmoluments price =
     (let emoluments = 0;
          (emoluments, price) =
             (if price > emolumentThresholds_tier3
              then (emoluments + (price - emolumentThresholds_tier3) * emolumentRates_bracket4,
                    emolumentThresholds_tier3)
              else (emoluments, price));
          (emoluments, price) =
             (if price > emolumentThresholds_tier2
              then (emoluments + (price - emolumentThresholds_tier2) * emolumentRates_bracket3,
                    emolumentThresholds_tier2)
              else (emoluments, price));
          (emoluments, price) =
             (if price > emolumentThresholds_tier1
              then (emoluments + (price - emolumentThresholds_tier1) * emolumentRates_bracket2,
                    emolumentThresholds_tier1)
              else (emoluments, price));
          emoluments =
             (if price > 0 then emoluments + price * emolumentRates_bracket1 else emoluments)
      in emoluments * emolumentTVA)"

definition calcNotaryFees :: "real \<Rightarrow> string \<Rightarrow> real" where
  "calcNotaryFees propertyPrice propertyType =
     (if propertyPrice = 0 \<or> propertyPrice \<le> 0 then 0
      else
        let emoluments = calcEmoluments propertyPrice;
            taxes = (if propertyType = ''new'' then propertyPrice * propertyTax_new
                     else propertyPrice * propertyTax_old);
            contribution = max contribution_minimum (propertyPrice * contribution_rate);
            totalFees = emoluments + taxes + debours + contribution
        in totalFees)"

definition calcCautionCreditLogement :: "real \<Rightarrow> real" where
  "calcCautionCreditLogement loanAmount =
     (if loanAmount = 0 \<or> loanAmount \<le> 0 then 0
      else
        let commission =
              (if loanAmount \<le> caution_threshold then loanAmount * caution_commissionRateLow
               else caution_commissionFixed
                      + (loanAmount - caution_threshold) * caution_commissionRateHigh);
            fmg = loanAmount * caution_fmgRate;
            totalCaution = commission + fmg
        in max caution_minimum totalCaution)"

section \<open>Interest-rate interpolation (formulas.js, section 3)\<close>






section \<open>Required loan for a chosen price (formulas.js, section 8)\<close>

text \<open>
  The convergence loop of \<^verbatim>\<open>calcRequiredLoan\<close>, on its three variables. It returns the
  loan estimate and the iteration counter at the exit; the exit through
  \<^verbatim>\<open>break\<close> leaves the estimate at 0 and the counter as it was.
\<close>

function requiredLoanLoop ::
  "real \<Rightarrow> real \<Rightarrow> real \<Rightarrow> real \<Rightarrow> real \<Rightarrow> real \<Rightarrow> nat \<Rightarrow> real \<times> nat" where
  "requiredLoanLoop propertyPrice capital fraisDossier notaryFees
       estimatedLoan previousLoan iterations =
     (if \<bar>estimatedLoan - previousLoan\<bar> > iteration_convergenceThreshold
         \<and> iterations < iteration_maxIterations
      then
        let previousLoan = estimatedLoan;
            caution = calcCautionCreditLogement estimatedLoan;
            totalFees = notaryFees + fraisDossier + caution;
            estimatedLoan = propertyPrice + totalFees - capital
        in if estimatedLoan < 0 then (0, iterations)
           else requiredLoanLoop propertyPrice capital fraisDossier notaryFees
                  estimatedLoan previousLoan (iterations + 1)
      else (estimatedLoan, iterations))"
  by pat_completeness auto
termination
  by (relation "measure (\<lambda>(propertyPrice, capital, fraisDossier, notaryFees,
                            estimatedLoan, previousLoan, iterations).
                          iteration_maxIterations - iterations)") auto

record RequiredLoan =
  res_loan :: real
  res_caution :: real
  res_notaryFees :: real
  res_totalFees :: real

definition calcRequiredLoan :: "real \<Rightarrow> real \<Rightarrow> real \<Rightarrow> string \<Rightarrow> RequiredLoan" where
  "calcRequiredLoan propertyPrice capital fraisDossier propertyType =
     (if propertyPrice = 0 \<or> propertyPrice \<le> 0
      then \<lparr>res_loan = 0, res_caution = 0, res_notaryFees = 0, res_totalFees = 0\<rparr>
      else
        let notaryFees = calcNotaryFees propertyPrice propertyType;
            estimatedLoan = propertyPrice + propertyPrice * iteration_initialFeesEstimate
                              - capital;
            (estimatedLoan, iterations) =
               requiredLoanLoop propertyPrice capital fraisDossier notaryFees
                 estimatedLoan 0 0;
            finalCaution = calcCautionCreditLogement estimatedLoan;
            finalTotalFees = notaryFees + fraisDossier + finalCaution
        in \<lparr>res_loan = max 0 estimatedLoan, res_caution = finalCaution,
            res_notaryFees = notaryFees, res_totalFees = finalTotalFees\<rparr>)"

text \<open>The value of \<^verbatim>\<open>iterations\<close> when the loop of \<^verbatim>\<open>calcRequiredLoan\<close> ends.\<close>

definition requiredLoanIterations :: "real \<Rightarrow> real \<Rightarrow> real \<Rightarrow> string \<Rightarrow> nat" where
  "requiredLoanIterations propertyPrice capital fraisDossier propertyType =
     snd (requiredLoanLoop propertyPrice capital fraisDossier
            (calcNotaryFees propertyPrice propertyType)
            (propertyPrice + propertyPrice * iteration_initialFeesEstimate - capital) 0 0)"

section \<open>Amortization table (formulas.js, section 9)\<close>

record AmortizationRow =
  row_month :: nat
  row_year :: nat
  row_payment :: real
  row_principalPart :: real
  row_interestPart :: real
  row_insurance :: real
  row_totalPaid :: real
  row_remainingCapital :: real

text \<open>
  The \<^verbatim>\<open>for\<close> loop over the months, on its variables \<^verbatim>\<open>month\<close>,
  \<^verbatim>\<open>remainingCapital\<close>, \<^verbatim>\<open>totalPaid\<close> and the table built so far.
  \<^verbatim>\<open>Math.ceil(month / 12)\<close> of a positive integer is \<open>(month + 11) div 12\<close>.
\<close>

function amortizationLoop ::
  "real \<Rightarrow> real \<Rightarrow> real \<Rightarrow> nat \<Rightarrow> nat \<Rightarrow> real \<Rightarrow> real \<Rightarrow> AmortizationRow list
     \<Rightarrow> AmortizationRow list" where
  "amortizationLoop monthlyRate monthlyPayment monthlyInsurance numMonths
       month remainingCapital totalPaid table =
     (if month \<le> numMonths
      then
        let interestPart = remainingCapital * monthlyRate;
            principalPart = monthlyPayment - interestPart;
            remainingCapital = remainingCapital - principalPart;
            remainingCapital = (if month = numMonths then 0 else remainingCapital);
            totalPaid = totalPaid + (monthlyPayment + monthlyInsurance);
            table = table @
              [\<lparr>row_month = month, row_year = (month + 11) div 12,
                row_payment = monthlyPayment, row_principalPart = principalPart,
                row_interestPart = interestPart, row_insurance = monthlyInsurance,
                row_totalPaid = totalPaid,
                row_remainingCapital = max 0 remainingCapital\<rparr>]
        in amortizationLoop monthlyRate monthlyPayment monthlyInsurance numMonths
             (month + 1) remainingCapital totalPaid table
      else table)"
  by pat_completeness auto
termination
  by (relation "measure (\<lambda>(monthlyRate, monthlyPayment, monthlyInsurance, numMonths,
                            month, remainingCapital, totalPaid, table).
                          numMonths + 1 - month)") auto

definition generateAmortizationTable ::
  "real \<Rightarrow> real \<Rightarrow> nat \<Rightarrow> real \<Rightarrow> AmortizationRow list" where
  "generateAmortizationTable loan annualRate durationYears insuranceRate =
     (if loan = 0 \<or> loan \<le> 0 \<or> annualRate = 0 \<or> durationYears = 0 then []
      else
        let monthlyRate = annualRate / 12 / 100;
            numMonths = durationYears * 12;
            monthlyPayment = calcMonthlyPayment loan annualRate durationYears;
            monthlyInsurance = calcMonthlyInsurance loan insuranceRate
        in amortizationLoop monthlyRate monthlyPayment monthlyInsurance numMonths
             1 loan 0 [])"

section \<open>Effective annual rate (formulas.js, section 10)\<close>

definition objectiveFunction :: "real \<Rightarrow> real \<Rightarrow> nat \<Rightarrow> real \<Rightarrow> real" where
  "objectiveFunction loan monthlyPayment numMonths candidateTAEGAnnual =
     (if candidateTAEGAnnual < 0 \<or> candidateTAEGAnnual > 50 then 10000000000
      else
        let monthlyRateCandidate = candidateTAEGAnnual / 12 / 100
        in if monthlyRateCandidate = 0
           then \<bar>loan / real numMonths - monthlyPayment\<bar>
           else
             let theoreticalPayment =
                   loan * (monthlyRateCandidate
                             * Math_pow (1 + monthlyRateCandidate) (int numMonths))
                     / (Math_pow (1 + monthlyRateCandidate) (int numMonths) - 1)
             in \<bar>theoreticalPayment - monthlyPayment\<bar>)"

text \<open>
  \<^verbatim>\<open>calcTAEG\<close> in the revision that carries the gigogne functions. The minimiser
  \<^verbatim>\<open>optimjs.minimize_Powell\<close> belongs to an external library: it is a parameter
  here, given the objective and the starting value, and returning the minimising
  argument, or \<open>None\<close> when the call throws. The sanity branch reads the unbound name
  \<^verbatim>\<open>error\<close> before its \<^verbatim>\<open>return 0\<close>; the exception this raises is caught by
  the enclosing \<^verbatim>\<open>catch\<close>, which returns 0 as well.
\<close>

definition calcTAEG ::
  "((real \<Rightarrow> real) \<Rightarrow> real \<Rightarrow> real option) \<Rightarrow> real \<Rightarrow> real \<Rightarrow> nat \<Rightarrow> real \<Rightarrow> real \<Rightarrow> real"
  where
  "calcTAEG minimize_Powell loan monthlyPayment durationYears nominalRate insuranceRate =
     (if loan = 0 \<or> loan \<le> 0 \<or> monthlyPayment = 0 \<or> monthlyPayment \<le> 0
         \<or> durationYears = 0
      then 0
      else
        let numMonths = durationYears * 12;
            estimatedInsuranceContribution =
              (if insuranceRate \<noteq> 0 then insuranceRate * 100 * 0.5 else 0.3);
            startingValue = nominalRate + estimatedInsuranceContribution
        in case minimize_Powell (objectiveFunction loan monthlyPayment numMonths)
                  startingValue of
             None \<Rightarrow> 0
           | Some argument \<Rightarrow>
               let optimizedTAEG =
                     (if argument < nominalRate then nominalRate else argument)
               in if optimizedTAEG < 0 \<or> optimizedTAEG > 50 then 0
                  else optimizedTAEG)"

text \<open>A minimiser whose call throws, whatever it is given.\<close>

definition throwingMinimizer :: "(real \<Rightarrow> real) \<Rightarrow> real \<Rightarrow> real option" where
  "throwingMinimizer f x0 = None"

text \<open>A minimiser that gives up at once and returns its starting value.\<close>

definition startingMinimizer :: "(real \<Rightarrow> real) \<Rightarrow> real \<Rightarrow> real option" where
  "startingMinimizer f x0 = Some x0"

section \<open>Gigogne loans (formulas.js, section 11)\<close>

text \<open>
  The payment of the secondary loan. The source writes this expression out in
  \<^verbatim>\<open>calcSmoothMensuality\<close> and again in \<^verbatim>\<open>checkConstraints\<close>, each time from
  \<^verbatim>\<open>rm2 = r2 / 12 / 100\<close> and \<^verbatim>\<open>nm2 = n2 * 12\<close>.

  The gigogne formulas divide by the number of months, by the monthly rates and by
  \<open>(1 + rm2) ^ nm2 - 1\<close>. In JavaScript a division by zero gives an infinity or
  \<^verbatim>\<open>NaN\<close>, in HOL it gives 0, so the definitions of this section stand for the code
  only where no divisor is zero: for rates \<open>\<ge> 0\<close> and a secondary duration
  \<open>n2 > 0\<close>. Every statement about them below has these ranges as hypotheses.
\<close>

definition secondaryPayment :: "real \<Rightarrow> real \<Rightarrow> nat \<Rightarrow> real" where
  "secondaryPayment p2 r2 n2 =
     (let rm2 = r2 / 12 / 100;
          nm2 = n2 * 12
      in if rm2 = 0 then p2 / real nm2
         else p2 * (rm2 * Math_pow (1 + rm2) (int nm2))
                / (Math_pow (1 + rm2) (int nm2) - 1))"

definition calcAnnuityFactor :: "real \<Rightarrow> nat \<Rightarrow> real" where
  "calcAnnuityFactor r n =
     (if r = 0 then real n else (1 - Math_pow (1 + r) (- int n)) / r)"

definition calcSmoothMensuality ::
  "real \<Rightarrow> real \<Rightarrow> nat \<Rightarrow> real \<Rightarrow> real \<Rightarrow> nat \<Rightarrow> real" where
  "calcSmoothMensuality p1 r1 n1 p2 r2 n2 =
     (if p1 < 0 \<or> p2 < 0 \<or> n1 = 0 \<or> n2 = 0 then 0
      else
        let rm1 = r1 / 12 / 100;
            nm1 = n1 * 12;
            nm2 = n2 * 12;
            m2 = secondaryPayment p2 r2 n2;
            A_r1_n1 = calcAnnuityFactor rm1 nm1;
            A_r1_n2 = calcAnnuityFactor rm1 nm2;
            M = (p1 + m2 * A_r1_n2) / A_r1_n1
        in M)"

text \<open>
  The closure \<^verbatim>\<open>checkConstraints\<close> of \<^verbatim>\<open>calcOptimalSecondaryAmount\<close>, with the
  variables it captures as parameters.
\<close>

definition checkConstraints :: "real \<Rightarrow> real \<Rightarrow> nat \<Rightarrow> real \<Rightarrow> nat \<Rightarrow> real \<Rightarrow> bool" where
  "checkConstraints totalLoan r1 n1 r2 n2 p2 =
     (let rm1 = r1 / 12 / 100;
          p1 = totalLoan - p2;
          M = calcSmoothMensuality p1 r1 n1 p2 r2 n2;
          m2 = secondaryPayment p2 r2 n2;
          primaryPaymentPhase1 = M - m2;
          primaryInterest = p1 * rm1
      in primaryPaymentPhase1 \<ge> primaryInterest - 0.01)"

text \<open>
  The binary search \<^verbatim>\<open>for (let i = 0; i < 20; i++)\<close>; the first argument counts the
  rounds that remain.
\<close>

fun secondarySearch :: "(real \<Rightarrow> bool) \<Rightarrow> nat \<Rightarrow> real \<Rightarrow> real \<Rightarrow> real \<Rightarrow> real" where
  "secondarySearch check 0 low high optimal = optimal"
| "secondarySearch check (Suc rounds) low high optimal =
     (let mid = (low + high) / 2
      in if check mid then secondarySearch check rounds mid high mid
         else secondarySearch check rounds low mid optimal)"

definition calcOptimalSecondaryAmount ::
  "real \<Rightarrow> real \<Rightarrow> nat \<Rightarrow> real \<Rightarrow> nat \<Rightarrow> real \<Rightarrow> real" where
  "calcOptimalSecondaryAmount totalLoan r1 n1 r2 n2 maxAmount =
     (if totalLoan = 0 \<or> totalLoan \<le> 0 then 0
      else
        let absoluteMaxP2 = min maxAmount totalLoan;
            low = 0;
            high = absoluteMaxP2;
            optimal = 0
        in if checkConstraints totalLoan r1 n1 r2 n2 high then high
           else
             let optimal = secondarySearch (checkConstraints totalLoan r1 n1 r2 n2)
                             20 low high optimal
             in real_of_int \<lfloor>optimal\<rfloor>)"

subsection \<open>The gigogne part of the application state (state.js)\<close>

record Gigogne =
  gigogne_enabled :: bool
  gigogne_maxAmount :: real
  gigogne_duration :: nat
  gigogne_rate :: real
  gigogne_optimalAmount :: real
  gigogne_actualAmount :: real

definition setGigogneOptimalAmount :: "real \<Rightarrow> Gigogne \<Rightarrow> Gigogne" where
  "setGigogneOptimalAmount optimal gigogne =
     (let gigogne = gigogne\<lparr>gigogne_optimalAmount := optimal\<rparr>
      in gigogne\<lparr>gigogne_actualAmount := min optimal (gigogne_maxAmount gigogne)\<rparr>)"

section \<open>Auxiliary notions for the proofs\<close>

declare requiredLoanLoop.simps [simp del]

declare amortizationLoop.simps [simp del]

text \<open>A row whose principal and interest parts add up to the payment, with a
  non-negative remaining capital.\<close>

definition rowBalanced :: "AmortizationRow \<Rightarrow> bool" where
  "rowBalanced row \<longleftrightarrow>
     row_principalPart row + row_interestPart row = row_payment row
     \<and> 0 \<le> row_remainingCapital row"


text \<open>A gigogne configuration: enabled, at most 50000 over 10 years at 1 percent.\<close>

definition exampleGigogne :: Gigogne where
  "exampleGigogne =
     \<lparr>gigogne_enabled = True, gigogne_maxAmount = 50000, gigogne_duration = 10,
      gigogne_rate = 1, gigogne_optimalAmount = 0, gigogne_actualAmount = 0\<rparr>"

text \<open>
  One round of the loop of \<^verbatim>\<open>calcRequiredLoan\<close> on the loan estimate, and \<open>k\<close> rounds
  of it without the exit tests.
\<close>

definition loanStep :: "real \<Rightarrow> real \<Rightarrow> real \<Rightarrow> real \<Rightarrow> real \<Rightarrow> real" where
  "loanStep propertyPrice capital fraisDossier notaryFees estimatedLoan =
     propertyPrice + (notaryFees + fraisDossier + calcCautionCreditLogement estimatedLoan)
       - capital"

fun loanIterate :: "real \<Rightarrow> real \<Rightarrow> real \<Rightarrow> real \<Rightarrow> nat \<Rightarrow> real \<Rightarrow> real" where
  "loanIterate propertyPrice capital fraisDossier notaryFees 0 estimatedLoan = estimatedLoan"
| "loanIterate propertyPrice capital fraisDossier notaryFees (Suc k) estimatedLoan =
     loanIterate propertyPrice capital fraisDossier notaryFees k
       (loanStep propertyPrice capital fraisDossier notaryFees estimatedLoan)"

section \<open>Properties\<close>

subsection \<open>The 35 percent rule\<close>

text \<open>
  C10. For all income and charge totals, \<^verbatim>\<open>calcMaxMonthlyPayment\<close> returns
  \<open>max(0, income * 0.35 - charges)\<close>: the monthly budget is the 35 percent debt-ratio
  rule clamped at zero, so it is never negative, also when the charges exceed 35 percent
  of the income.
\<close>

theorem calcMaxMonthlyPayment_rule:
  "calcMaxMonthlyPayment income charges = max 0 (income * 0.35 - charges)
   \<and> 0 \<le> calcMaxMonthlyPayment income charges"
  by (simp add: calcMaxMonthlyPayment_def debtRatio_def)

subsection \<open>The emoluments scale at its third threshold\<close>

text \<open>
  C9. At the price 60000, the third threshold, \<^verbatim>\<open>calcEmoluments\<close> has no
  contribution of the top bracket: the result is the three lower brackets, filled, times
  the TVA factor.
\<close>

theorem calcEmoluments_tier3_boundary:
  "calcEmoluments 60000 =
     ((60000 - 17000) * emolumentRates_bracket3
      + (17000 - 6500) * emolumentRates_bracket2
      + 6500 * emolumentRates_bracket1) * emolumentTVA"
  by (simp add: calcEmoluments_def emolumentThresholds_tier1_def
        emolumentThresholds_tier2_def emolumentThresholds_tier3_def)

subsection \<open>Integer powers\<close>

lemma Math_pow_int: "Math_pow b (int n) = b ^ n"
  by (simp add: Math_pow_def)

lemma Math_pow_neg_int: "Math_pow b (- int n) = inverse (b ^ n)"
  by (simp add: Math_pow_def power_int_minus)

lemma growth_gt_1:
  fixes m :: real
  assumes "0 < m" "0 < n"
  shows "1 < (1 + m) ^ (n * 12)"
  using assms by (intro one_less_power) auto

subsection \<open>The annuity round trip\<close>

lemma calcMonthlyPayment_annuity:
  assumes "0 < P" "0 < r" "0 < n"
  shows "calcMonthlyPayment P r n
         = P * (r / 12 / 100 * (1 + r / 12 / 100) ^ (n * 12))
             / ((1 + r / 12 / 100) ^ (n * 12) - 1)"
  unfolding calcMonthlyPayment_def Let_def Math_pow_int
  using assms by simp

lemma calcMonthlyPayment_pos:
  assumes "0 < P" "0 < r" "0 < n"
  shows "0 < calcMonthlyPayment P r n"
proof -
  let ?m = "r / 12 / 100"
  let ?q = "(1 + ?m) ^ (n * 12)"
  have m: "0 < ?m" using assms by simp
  have q: "1 < ?q" using m assms(3) by (rule growth_gt_1)
  have "0 < P * (?m * ?q) / (?q - 1)"
    using assms m q by (intro divide_pos_pos mult_pos_pos) auto
  then show ?thesis
    by (simp only: calcMonthlyPayment_annuity[OF assms])
qed

text \<open>
  C1. For every principal \<open>P > 0\<close>, annual rate \<open>r > 0\<close> and duration \<open>n > 0\<close> years,
  \<^verbatim>\<open>calcMaxLoan\<close> applied to the payment \<^verbatim>\<open>calcMonthlyPayment(P, r, n)\<close> at the
  same rate and duration gives \<open>P\<close> again. In exact arithmetic the two formulas are
  inverse to each other, so the round trip is an equality.
\<close>

theorem annuity_round_trip:
  assumes "0 < P" "0 < r" "0 < n"
  shows "calcMaxLoan (calcMonthlyPayment P r n) r n = P"
proof -
  let ?m = "r / 12 / 100"
  let ?q = "(1 + ?m) ^ (n * 12)"
  have m: "0 < ?m" using assms by simp
  have q: "1 < ?q" using m assms(3) by (rule growth_gt_1)
  have pos: "0 < calcMonthlyPayment P r n" using assms by (rule calcMonthlyPayment_pos)
  have "calcMaxLoan (calcMonthlyPayment P r n) r n
        = calcMonthlyPayment P r n * (1 - inverse ?q) / ?m"
    unfolding calcMaxLoan_def Let_def Math_pow_neg_int
    using assms pos by simp
  also have "\<dots> = P * (?m * ?q) / (?q - 1) * (1 - inverse ?q) / ?m"
    by (simp only: calcMonthlyPayment_annuity[OF assms])
  also have "\<dots> = P"
    using m q by (simp add: field_simps)
  finally show ?thesis .
qed

theorem annuity_round_trip_witness:
  "(0::real) < 200000 \<and> (0::real) < 3.09 \<and> (0::nat) < 20
   \<and> calcMaxLoan (calcMonthlyPayment 200000 3.09 20) 3.09 20 = 200000"
  using annuity_round_trip[of 200000 "3.09" 20] by simp

subsection \<open>The zero-rate payment\<close>

text \<open>
  C6. The claim is that at the annual rate 0 the payment is the straight-line payment
  \<open>principal / (years * 12)\<close>. The guard \<^verbatim>\<open>!annualRate\<close> at the head of
  \<^verbatim>\<open>calcMonthlyPayment\<close> is true at the rate 0, so the function returns 0 before it
  reaches its own zero-interest branch: for 120000 over 10 years it returns 0, not 1000.
\<close>

theorem calcMonthlyPayment_zero_rate:
  "calcMonthlyPayment 120000 0 10 = 0 \<and> (120000::real) / real (10 * 12) = 1000"
  by (simp add: calcMonthlyPayment_def)

subsection \<open>The amortization table\<close>

lemma amortizationLoop_step:
  "month \<le> N \<Longrightarrow>
   amortizationLoop mr mp mi N month rc tp table =
   amortizationLoop mr mp mi N (month + 1)
     (if month = N then 0 else rc - (mp - rc * mr)) (tp + (mp + mi))
     (table @
       [\<lparr>row_month = month, row_year = (month + 11) div 12,
         row_payment = mp, row_principalPart = mp - rc * mr,
         row_interestPart = rc * mr, row_insurance = mi,
         row_totalPaid = tp + (mp + mi),
         row_remainingCapital = max 0 (if month = N then 0 else rc - (mp - rc * mr))\<rparr>])"
  by (subst amortizationLoop.simps) (simp only: Let_def if_True)

lemma amortizationLoop_stop:
  "\<not> month \<le> N \<Longrightarrow> amortizationLoop mr mp mi N month rc tp table = table"
  by (subst amortizationLoop.simps) simp

lemma amortizationLoop_length:
  "length (amortizationLoop mr mp mi N month rc tp table) = length table + (N + 1 - month)"
proof (induction mr mp mi N month rc tp table rule: amortizationLoop.induct)
  case (1 mr mp mi N month rc tp table)
  show ?case
  proof (cases "month \<le> N")
    case True
    have "length (amortizationLoop mr mp mi N month rc tp table)
          = length table + 1 + (N + 1 - (month + 1))"
      unfolding amortizationLoop_step[OF True]
      using "1.IH"[OF True refl refl refl refl refl refl] by simp
    then show ?thesis using True by simp
  next
    case False
    then show ?thesis by (simp add: amortizationLoop_stop)
  qed
qed

lemma amortizationLoop_rows:
  "list_all rowBalanced table \<Longrightarrow>
   list_all rowBalanced (amortizationLoop mr mp mi N month rc tp table)"
proof (induction mr mp mi N month rc tp table rule: amortizationLoop.induct)
  case (1 mr mp mi N month rc tp table)
  show ?case
  proof (cases "month \<le> N")
    case True
    let ?row = "\<lparr>row_month = month, row_year = (month + 11) div 12,
         row_payment = mp, row_principalPart = mp - rc * mr,
         row_interestPart = rc * mr, row_insurance = mi,
         row_totalPaid = tp + (mp + mi),
         row_remainingCapital = max 0 (if month = N then 0 else rc - (mp - rc * mr))\<rparr>"
    have "rowBalanced ?row" by (simp add: rowBalanced_def)
    with "1.prems" have "list_all rowBalanced (table @ [?row])" by simp
    then show ?thesis
      unfolding amortizationLoop_step[OF True]
      by (rule "1.IH"[OF True refl refl refl refl refl refl])
  next
    case False
    then show ?thesis using "1.prems" by (simp add: amortizationLoop_stop)
  qed
qed

lemma amortizationLoop_last:
  "month \<le> N \<Longrightarrow>
   row_remainingCapital (last (amortizationLoop mr mp mi N month rc tp table)) = 0"
proof (induction mr mp mi N month rc tp table rule: amortizationLoop.induct)
  case (1 mr mp mi N month rc tp table)
  note le = "1.prems"
  show ?case
  proof (cases "month = N")
    case True
    have stop: "\<not> month + 1 \<le> N" using True by simp
    show ?thesis
      unfolding amortizationLoop_step[OF le] amortizationLoop_stop[OF stop]
      using True by simp
  next
    case False
    with le have lt: "month + 1 \<le> N" by simp
    show ?thesis
      unfolding amortizationLoop_step[OF le]
      by (rule "1.IH"[OF le refl refl refl refl refl refl lt])
  qed
qed

text \<open>
  C2. For every loan \<open>> 0\<close>, annual rate \<open>> 0\<close> and duration \<open>> 0\<close>, the table of
  \<^verbatim>\<open>generateAmortizationTable\<close> has \<open>durationYears * 12\<close> rows, every row has
  \<open>principalPart + interestPart = payment\<close> within \<open>1e-6\<close> (in exact arithmetic the
  two sides are equal) and a remaining capital \<open>\<ge> 0\<close>, and the remaining capital of the
  last row is 0.
\<close>

theorem amortization_table_invariant:
  assumes "0 < loan" "0 < annualRate" "0 < durationYears"
  shows "length (generateAmortizationTable loan annualRate durationYears insuranceRate)
           = durationYears * 12
         \<and> list_all
             (\<lambda>row. \<bar>row_principalPart row + row_interestPart row - row_payment row\<bar>
                       \<le> 1 / 10 ^ 6
                    \<and> 0 \<le> row_remainingCapital row)
             (generateAmortizationTable loan annualRate durationYears insuranceRate)
         \<and> row_remainingCapital
             (last (generateAmortizationTable loan annualRate durationYears insuranceRate))
           = 0"
proof -
  let ?N = "durationYears * 12"
  let ?t = "amortizationLoop (annualRate / 12 / 100)
              (calcMonthlyPayment loan annualRate durationYears)
              (calcMonthlyInsurance loan insuranceRate) ?N 1 loan 0 []"
  have gen: "generateAmortizationTable loan annualRate durationYears insuranceRate = ?t"
    using assms by (simp add: generateAmortizationTable_def Let_def)
  have len: "length ?t = ?N" by (simp add: amortizationLoop_length)
  have "list_all rowBalanced ?t" by (rule amortizationLoop_rows) simp
  then have rows:
    "list_all
       (\<lambda>row. \<bar>row_principalPart row + row_interestPart row - row_payment row\<bar>
                 \<le> 1 / 10 ^ 6
              \<and> 0 \<le> row_remainingCapital row) ?t"
    by (simp add: list_all_iff rowBalanced_def)
  have "1 \<le> ?N" using assms(3) by simp
  then have lst: "row_remainingCapital (last ?t) = 0" by (rule amortizationLoop_last)
  show ?thesis unfolding gen using len rows lst by blast
qed

theorem amortization_table_invariant_witness:
  "(0::real) < 200000 \<and> (0::real) < 3.09 \<and> (0::nat) < 20
   \<and> length (generateAmortizationTable 200000 3.09 20 0.00235) = 20 * 12
   \<and> list_all
       (\<lambda>row. \<bar>row_principalPart row + row_interestPart row - row_payment row\<bar>
                 \<le> 1 / 10 ^ 6
              \<and> 0 \<le> row_remainingCapital row)
       (generateAmortizationTable 200000 3.09 20 0.00235)
   \<and> row_remainingCapital (last (generateAmortizationTable 200000 3.09 20 0.00235)) = 0"
  using amortization_table_invariant[of 200000 "3.09" 20 "0.00235"] by simp

subsection \<open>Rate interpolation with an absent anchor\<close>




subsection \<open>The effective annual rate\<close>

text \<open>
  C3, as stated: for every valid input the result of \<^verbatim>\<open>calcTAEG\<close> is at least the
  nominal rate, also on the failure paths of the root-finder. It is not: when the
  minimiser throws, the \<^verbatim>\<open>catch\<close> branch returns 0, below the nominal rate 3.17.
\<close>

theorem calcTAEG_failure_below_nominal:
  "\<not> (3.17 \<le> calcTAEG throwingMinimizer 200000 1200 20 3.17 0.00235)"
  by (simp add: calcTAEG_def throwingMinimizer_def)

text \<open>
  C3, amended: for every valid input (loan \<open>> 0\<close>, monthly payment \<open>> 0\<close>, duration
  \<open>> 0\<close>), \<^verbatim>\<open>calcTAEG\<close> returns 0 when the minimiser throws, and when the minimiser
  returns an argument it clamps the argument from below to the nominal rate: if the
  clamped value \<open>max(argument, nominalRate)\<close> lies in \<open>[0, 50]\<close> the result is exactly
  that value, hence at least the nominal rate, and otherwise the result is 0. The
  minimiser is run on the objective function from the starting value
  \<open>nominalRate + (insuranceRate ? insuranceRate * 100 * 0.5 : 0.3)\<close>.
\<close>

theorem calcTAEG_clamped_optimum_or_zero:
  assumes "0 < loan" "0 < monthlyPayment" "0 < durationYears"
  shows "case minimize_Powell (objectiveFunction loan monthlyPayment (durationYears * 12))
                (nominalRate + (if insuranceRate \<noteq> 0 then insuranceRate * 100 * 0.5 else 0.3))
         of
           None \<Rightarrow>
             calcTAEG minimize_Powell loan monthlyPayment durationYears nominalRate
               insuranceRate = 0
         | Some argument \<Rightarrow>
             (if 0 \<le> max argument nominalRate \<and> max argument nominalRate \<le> 50
              then calcTAEG minimize_Powell loan monthlyPayment durationYears nominalRate
                     insuranceRate = max argument nominalRate
                   \<and> nominalRate
                       \<le> calcTAEG minimize_Powell loan monthlyPayment durationYears
                           nominalRate insuranceRate
              else calcTAEG minimize_Powell loan monthlyPayment durationYears nominalRate
                     insuranceRate = 0)"
  using assms by (auto simp: calcTAEG_def Let_def max_def split: option.splits)

theorem calcTAEG_clamped_optimum_or_zero_witness:
  "(0::real) < 200000 \<and> (0::real) < 1200 \<and> (0::nat) < 20
   \<and> startingMinimizer (objectiveFunction 200000 1200 (20 * 12))
         (3.17 + 0.00235 * 100 * 0.5) = Some 3.2875
   \<and> calcTAEG startingMinimizer 200000 1200 20 3.17 0.00235 = 3.2875
   \<and> 3.17 \<le> calcTAEG startingMinimizer 200000 1200 20 3.17 0.00235"
  using calcTAEG_clamped_optimum_or_zero
          [where loan = 200000 and monthlyPayment = 1200 and durationYears = 20
             and minimize_Powell = startingMinimizer and nominalRate = "3.17"
             and insuranceRate = "0.00235"]
  by (simp add: startingMinimizer_def)

subsection \<open>The gigogne constraint\<close>

lemma secondarySearch_inv:
  assumes "0 \<le> optimal" "optimal \<le> low" "low \<le> high" "optimal = 0 \<or> check optimal"
  shows "0 \<le> secondarySearch check rounds low high optimal
         \<and> secondarySearch check rounds low high optimal \<le> high
         \<and> (secondarySearch check rounds low high optimal = 0
              \<or> check (secondarySearch check rounds low high optimal))"
  using assms
proof (induction rounds arbitrary: low high optimal)
  case 0
  then show ?case by auto
next
  case (Suc rounds)
  let ?mid = "(low + high) / 2"
  have mid: "low \<le> ?mid" "?mid \<le> high" using Suc.prems by simp_all
  show ?case
  proof (cases "check ?mid")
    case True
    have "0 \<le> ?mid" using Suc.prems mid by linarith
    from Suc.IH[OF this order_refl mid(2)] True
    show ?thesis by (simp add: Let_def)
  next
    case False
    have "optimal \<le> ?mid" using Suc.prems mid by linarith
    from Suc.IH[OF Suc.prems(1) Suc.prems(2) mid(1) Suc.prems(4)] False mid
    show ?thesis by (auto simp: Let_def)
  qed
qed












subsection \<open>The secondary amount that is used\<close>

lemma calcOptimalSecondaryAmount_le:
  assumes "0 \<le> totalLoan" "0 \<le> maxAmount"
  shows "calcOptimalSecondaryAmount totalLoan r1 n1 r2 n2 maxAmount \<le> min maxAmount totalLoan"
proof (cases "0 < totalLoan")
  case False
  then show ?thesis using assms by (simp add: calcOptimalSecondaryAmount_def)
next
  case True
  let ?check = "checkConstraints totalLoan r1 n1 r2 n2"
  let ?high = "min maxAmount totalLoan"
  let ?opt = "secondarySearch ?check 20 0 ?high 0"
  have high: "0 \<le> ?high" using True assms by simp
  have inv: "0 \<le> ?opt \<and> ?opt \<le> ?high \<and> (?opt = 0 \<or> ?check ?opt)"
    by (rule secondarySearch_inv) (use high in simp_all)
  have "real_of_int \<lfloor>?opt\<rfloor> \<le> ?opt" by simp
  then have "real_of_int \<lfloor>?opt\<rfloor> \<le> ?high" using inv by linarith
  then show ?thesis using True
    by (simp add: calcOptimalSecondaryAmount_def Let_def)
qed

text \<open>
  C5. The secondary amount used in a recalculation is
  \<open>min(computed optimum, user maximum, total required loan)\<close>:
  \<^verbatim>\<open>setGigogneOptimalAmount\<close> stores any optimum it is given and, as actual amount, that
  optimum clamped to the user maximum; \<^verbatim>\<open>calcOptimalSecondaryAmount\<close> returns at most
  \<open>min(maxAmount, totalLoan)\<close>; so the actual amount stored for the computed optimum is
  the minimum of the three. The required loan and the user maximum are non-negative
  (\<^verbatim>\<open>calcRequiredLoan\<close> returns \<^verbatim>\<open>Math.max(0, ...)\<close>), the rates are non-negative
  and the secondary duration is positive, as the data model has them.
\<close>

theorem gigogne_actual_amount:
  assumes "0 \<le> totalLoan" "0 \<le> gigogne_maxAmount gigogne"
    and "0 \<le> r1" "0 \<le> r2" "0 < n2"
  shows "gigogne_actualAmount (setGigogneOptimalAmount optimal gigogne)
           = min optimal (gigogne_maxAmount gigogne)
         \<and> gigogne_optimalAmount (setGigogneOptimalAmount optimal gigogne) = optimal
         \<and> gigogne_maxAmount (setGigogneOptimalAmount optimal gigogne)
             = gigogne_maxAmount gigogne
         \<and> calcOptimalSecondaryAmount totalLoan r1 n1 r2 n2 (gigogne_maxAmount gigogne)
             \<le> min (gigogne_maxAmount gigogne) totalLoan
         \<and> gigogne_actualAmount
               (setGigogneOptimalAmount
                  (calcOptimalSecondaryAmount totalLoan r1 n1 r2 n2
                     (gigogne_maxAmount gigogne)) gigogne)
             = min (calcOptimalSecondaryAmount totalLoan r1 n1 r2 n2
                      (gigogne_maxAmount gigogne))
                 (min (gigogne_maxAmount gigogne) totalLoan)"
  using calcOptimalSecondaryAmount_le[OF assms(1,2), of r1 n1 r2 n2]
  by (simp add: setGigogneOptimalAmount_def Let_def)

theorem gigogne_actual_amount_witness:
  "(0::real) \<le> 200000
   \<and> 0 \<le> gigogne_maxAmount exampleGigogne
   \<and> (0::real) \<le> 3.17 \<and> (0::real) \<le> 1 \<and> (0::nat) < 10
   \<and> gigogne_actualAmount (setGigogneOptimalAmount 60000 exampleGigogne) = 50000
   \<and> gigogne_optimalAmount (setGigogneOptimalAmount 60000 exampleGigogne) = 60000
   \<and> calcOptimalSecondaryAmount 200000 3.17 20 1 10 50000 \<le> 50000
   \<and> gigogne_actualAmount
         (setGigogneOptimalAmount
            (calcOptimalSecondaryAmount 200000 3.17 20 1 10 50000) exampleGigogne)
       = min (calcOptimalSecondaryAmount 200000 3.17 20 1 10 50000) 50000"
  using gigogne_actual_amount[of 200000 exampleGigogne "3.17" 1 10 60000 20]
  by (simp add: exampleGigogne_def)

subsection \<open>The required loan as a function of the price\<close>

lemmas config_defs =
  emolumentRates_bracket1_def emolumentRates_bracket2_def emolumentRates_bracket3_def
  emolumentRates_bracket4_def emolumentThresholds_tier1_def emolumentThresholds_tier2_def
  emolumentThresholds_tier3_def emolumentTVA_def propertyTax_new_def propertyTax_old_def
  debours_def contribution_rate_def contribution_minimum_def caution_threshold_def
  caution_commissionRateLow_def caution_commissionFixed_def caution_commissionRateHigh_def
  caution_fmgRate_def caution_minimum_def iteration_maxIterations_def
  iteration_convergenceThreshold_def iteration_initialFeesEstimate_def


lemma calcCautionCreditLogement_mono:
  "x \<le> y \<Longrightarrow> calcCautionCreditLogement x \<le> calcCautionCreditLogement y"
  by (auto simp: calcCautionCreditLogement_def Let_def config_defs max_def diff_divide_distrib add_divide_distrib)

lemma calcEmoluments_mono:
  "x \<le> y \<Longrightarrow> calcEmoluments x \<le> calcEmoluments y"
  by (auto simp: calcEmoluments_def Let_def config_defs diff_divide_distrib add_divide_distrib)

lemma calcEmoluments_nonneg: "0 \<le> calcEmoluments x"
  by (auto simp: calcEmoluments_def Let_def config_defs)

lemma calcNotaryFees_mono:
  assumes "x \<le> y"
  shows "calcNotaryFees x propertyType \<le> calcNotaryFees y propertyType"
proof (cases "0 < x")
  case True
  then have y: "0 < y" using assms by simp
  have "calcEmoluments x \<le> calcEmoluments y" using assms by (rule calcEmoluments_mono)
  then show ?thesis using True y assms
    by (auto simp: calcNotaryFees_def Let_def propertyTax_new_def propertyTax_old_def
          contribution_rate_def contribution_minimum_def debours_def max_def)
next
  case False
  then have "calcNotaryFees x propertyType = 0" by (simp add: calcNotaryFees_def)
  moreover have "0 \<le> calcNotaryFees y propertyType"
    using calcEmoluments_nonneg[of y]
    by (auto simp: calcNotaryFees_def Let_def propertyTax_new_def propertyTax_old_def
          contribution_rate_def contribution_minimum_def debours_def max_def)
  ultimately show ?thesis by simp
qed

lemma requiredLoanLoop_step:
  assumes "\<bar>est - prev\<bar> > iteration_convergenceThreshold" "i < iteration_maxIterations"
  shows "requiredLoanLoop p c f N est prev i =
           (if loanStep p c f N est < 0 then (0, i)
            else requiredLoanLoop p c f N (loanStep p c f N est) est (i + 1))"
  using assms by (subst requiredLoanLoop.simps) (simp add: Let_def loanStep_def)

lemma requiredLoanLoop_stop:
  assumes "\<not> (\<bar>est - prev\<bar> > iteration_convergenceThreshold \<and> i < iteration_maxIterations)"
  shows "requiredLoanLoop p c f N est prev i = (est, i)"
  by (subst requiredLoanLoop.simps) (simp only: assms if_False)

lemma requiredLoanLoop_iterate:
  "requiredLoanLoop p c f N est prev i = (r, k) \<Longrightarrow> r \<noteq> 0 \<Longrightarrow>
   i \<le> k \<and> r = loanIterate p c f N (k - i) est"
proof (induction p c f N est prev i rule: requiredLoanLoop.induct)
  case (1 p c f N est prev i)
  show ?case
  proof (cases "\<bar>est - prev\<bar> > iteration_convergenceThreshold \<and> i < iteration_maxIterations")
    case False
    then show ?thesis using "1.prems" by (simp add: requiredLoanLoop_stop)
  next
    case True
    then have c1: "\<bar>est - prev\<bar> > iteration_convergenceThreshold"
      and c2: "i < iteration_maxIterations" by simp_all
    note step = requiredLoanLoop_step[OF c1 c2, of p c f N]
    show ?thesis
    proof (cases "loanStep p c f N est < 0")
      case True
      then show ?thesis using "1.prems" step by simp
    next
      case False
      then have nn: "\<not> p + (N + f + calcCautionCreditLogement est) - c < 0"
        by (simp add: loanStep_def)
      have run: "requiredLoanLoop p c f N (loanStep p c f N est) est (i + 1) = (r, k)"
        using "1.prems"(1) step False by simp
      have ih: "i + 1 \<le> k \<and> r = loanIterate p c f N (k - (i + 1)) (loanStep p c f N est)"
        using "1.IH"[OF True refl refl refl refl nn] run "1.prems"(2)
        by (simp add: loanStep_def)
      then have "i + 1 \<le> k" by simp
      then have "k - i = Suc (k - (i + 1))" by arith
      then show ?thesis using ih by simp
    qed
  qed
qed

lemma loanStep_mono:
  assumes "p1 \<le> p2" "N1 \<le> N2" "x \<le> y"
  shows "loanStep p1 c f N1 x \<le> loanStep p2 c f N2 y"
  using assms calcCautionCreditLogement_mono[OF assms(3)] by (simp add: loanStep_def)

lemma loanIterate_mono:
  assumes "p1 \<le> p2" "N1 \<le> N2"
  shows "x \<le> y \<Longrightarrow> loanIterate p1 c f N1 k x \<le> loanIterate p2 c f N2 k y"
proof (induction k arbitrary: x y)
  case 0
  then show ?case by simp
next
  case (Suc k)
  show ?case using Suc.IH[OF loanStep_mono[OF assms Suc.prems]] by simp
qed

lemma calcRequiredLoan_loan:
  "0 < p \<Longrightarrow>
   res_loan (calcRequiredLoan p c f t)
     = max 0 (fst (requiredLoanLoop p c f (calcNotaryFees p t)
                     (p + p * iteration_initialFeesEstimate - c) 0 0))"
  by (simp add: calcRequiredLoan_def Let_def split_beta)

lemma calcRequiredLoan_nonneg: "0 \<le> res_loan (calcRequiredLoan p c f t)"
  by (simp add: calcRequiredLoan_def Let_def split_beta)

text \<open>
  C7, as stated: with capital, dossier fee and property type fixed, the loan that
  \<^verbatim>\<open>calcRequiredLoan\<close> returns never decreases when the price increases. It does: for
  a new property without capital or dossier fee, the loop stops after two rounds at the
  price 115777 and after three at 115778, and the less converged estimate of the lower
  price is the larger loan (121372.38 against 121371.72).
\<close>

theorem calcRequiredLoan_not_monotone:
  "(115777::real) \<le> 115778
   \<and> \<not> (res_loan (calcRequiredLoan 115777 0 0 ''new'')
          \<le> res_loan (calcRequiredLoan 115778 0 0 ''new''))"
  by (simp add: calcRequiredLoan_def requiredLoanLoop.simps calcNotaryFees_def
        calcEmoluments_def calcCautionCreditLogement_def Let_def config_defs)

text \<open>
  C7, amended: the loan is monotone in the price between two prices whose convergence
  loops stop after the same number of rounds, when the larger price needs a loan (its
  result is positive, so its loop did not end at the clamp to 0). Each round is monotone
  in the price and in the estimate; only the stopping rule, with its tolerance of 100,
  depends on the price in a way that can reverse the order.
\<close>

theorem calcRequiredLoan_monotone_same_iterations:
  assumes le: "price1 \<le> price2"
    and iters: "requiredLoanIterations price1 capital fraisDossier propertyType
                = requiredLoanIterations price2 capital fraisDossier propertyType"
    and pos: "0 < res_loan (calcRequiredLoan price2 capital fraisDossier propertyType)"
  shows "res_loan (calcRequiredLoan price1 capital fraisDossier propertyType)
         \<le> res_loan (calcRequiredLoan price2 capital fraisDossier propertyType)"
proof (cases "0 < price1")
  case False
  then have "res_loan (calcRequiredLoan price1 capital fraisDossier propertyType) = 0"
    by (simp add: calcRequiredLoan_def)
  then show ?thesis using pos by simp
next
  case True
  then have p2: "0 < price2" using le by simp
  let ?N1 = "calcNotaryFees price1 propertyType"
  let ?N2 = "calcNotaryFees price2 propertyType"
  let ?x1 = "price1 + price1 * iteration_initialFeesEstimate - capital"
  let ?x2 = "price2 + price2 * iteration_initialFeesEstimate - capital"
  obtain r1 k1 where run1:
    "requiredLoanLoop price1 capital fraisDossier ?N1 ?x1 0 0 = (r1, k1)"
    by (cases "requiredLoanLoop price1 capital fraisDossier ?N1 ?x1 0 0")
  obtain r2 k2 where run2:
    "requiredLoanLoop price2 capital fraisDossier ?N2 ?x2 0 0 = (r2, k2)"
    by (cases "requiredLoanLoop price2 capital fraisDossier ?N2 ?x2 0 0")
  have k: "k1 = k2" using iters run1 run2 by (simp add: requiredLoanIterations_def)
  have L1: "res_loan (calcRequiredLoan price1 capital fraisDossier propertyType) = max 0 r1"
    using calcRequiredLoan_loan[OF True] run1 by simp
  have L2: "res_loan (calcRequiredLoan price2 capital fraisDossier propertyType) = max 0 r2"
    using calcRequiredLoan_loan[OF p2] run2 by simp
  have r2: "0 < r2" using pos L2 by simp
  then have it2: "r2 = loanIterate price2 capital fraisDossier ?N2 k2 ?x2"
    using requiredLoanLoop_iterate[OF run2] by simp
  show ?thesis
  proof (cases "r1 = 0")
    case True
    then show ?thesis using L1 L2 by simp
  next
    case False
    then have it1: "r1 = loanIterate price1 capital fraisDossier ?N1 k1 ?x1"
      using requiredLoanLoop_iterate[OF run1] by simp
    have N: "?N1 \<le> ?N2" using le by (rule calcNotaryFees_mono)
    have x: "?x1 \<le> ?x2" using le
      by (simp add: iteration_initialFeesEstimate_def)
    have "r1 \<le> r2"
      unfolding it1 it2 k by (rule loanIterate_mono[OF le N x])
    then show ?thesis using L1 L2 by simp
  qed
qed

theorem calcRequiredLoan_monotone_same_iterations_witness:
  "(250000::real) \<le> 260000
   \<and> requiredLoanIterations 250000 50000 1000 ''old''
       = requiredLoanIterations 260000 50000 1000 ''old''
   \<and> 0 < res_loan (calcRequiredLoan 260000 50000 1000 ''old'')
   \<and> res_loan (calcRequiredLoan 250000 50000 1000 ''old'')
       \<le> res_loan (calcRequiredLoan 260000 50000 1000 ''old'')"
proof -
  have i: "requiredLoanIterations 250000 50000 1000 ''old''
           = requiredLoanIterations 260000 50000 1000 ''old''"
    by (simp add: requiredLoanIterations_def requiredLoanLoop.simps calcNotaryFees_def
          calcEmoluments_def calcCautionCreditLogement_def Let_def config_defs)
  have p: "0 < res_loan (calcRequiredLoan 260000 50000 1000 ''old'')"
    by (simp add: calcRequiredLoan_def requiredLoanLoop.simps calcNotaryFees_def
          calcEmoluments_def calcCautionCreditLogement_def Let_def config_defs)
  show ?thesis
    using calcRequiredLoan_monotone_same_iterations[OF _ i p] i p by simp
qed

end
